theory Spec2Isabelle
  imports Complex_Main
begin

section \<open>The signal control engine of traffic_light_controller.py\<close>

text \<open>
  The theory embeds the control core of class \<open>DualTrafficLightAI\<close>: the detection
  stabilizer \<open>get_confirmed_car_count\<close>, the command emitter \<open>send_commands\<close>, the mode
  logic \<open>update_traffic_lights\<close> and the part of \<open>run\<close> that drives them.

  Conventions of the embedding:
  \<^item> The instance fields become the record \<open>controller\<close>; every method takes the state and
    returns the new one. Fields that the control core never reads (model, camera, FPS
    counters, \<open>last_command_time\<close>, dataset bookkeeping) are left out.
  \<^item> Light colours and directions stay the one-letter Python strings of the source.
  \<^item> \<open>time.time()\<close> is a parameter of each method; instants and durations are reals, so
    the rounding of floating-point subtraction is not modelled. The mean of the history
    is the exact quotient; the float quotient rounds to the same integer for every
    count a camera frame can produce.
  \<^item> The serial link is the field \<open>arduino_writes\<close>, the byte strings delivered so far,
    one entry per successful \<open>write\<close> call. Whether a \<open>write\<close> call succeeds is the
    parameter \<open>ok\<close>; each method makes at most one \<open>write\<close> call per invocation.
  \<^item> An exception that leaves a method is a value \<open>Inl e\<close>.
\<close>

subsection \<open>Configuration constants (lines 24-31)\<close>

definition YELLOW_DURATION :: real where
  "YELLOW_DURATION = 2"

definition HIGH_TRAFFIC_TIMER :: real where
  "HIGH_TRAFFIC_TIMER = 30"

definition HIGH_TRAFFIC_THRESHOLD :: int where
  "HIGH_TRAFFIC_THRESHOLD = 8"

definition DETECTION_CONFIRMATION_TIME :: real where
  "DETECTION_CONFIRMATION_TIME = 3"

definition DETECTION_HISTORY_SIZE :: nat where
  "DETECTION_HISTORY_SIZE = 10"

subsection \<open>State (lines 43-93)\<close>

datatype error = SerialException | TypeError

record controller =
  light_a :: string
  light_b :: string
  yellow_start_time :: "real option"
  high_traffic_start_time :: "real option"
  is_yellow_transition :: bool
  is_high_traffic_mode :: bool
  high_traffic_direction :: string
  detection_history :: "int list"
  confirmed_car_count :: int
  last_state_change_time :: real
  pending_car_count :: int
  arduino_writes :: "string list"

text \<open>The state after \<open>__init__\<close>, constructed at instant \<open>t\<close>; nothing has been written.\<close>

definition init_controller :: "real \<Rightarrow> controller" where
  "init_controller t =
     \<lparr> light_a = ''R'', light_b = ''G'',
       yellow_start_time = None, high_traffic_start_time = None,
       is_yellow_transition = False, is_high_traffic_mode = False,
       high_traffic_direction = ''B'',
       detection_history = [], confirmed_car_count = 0,
       last_state_change_time = t, pending_car_count = 0,
       arduino_writes = [] \<rparr>"

subsection \<open>Detection stabilizer (lines 126-200)\<close>

text \<open>\<open>int(x)\<close> on a float truncates towards zero.\<close>

definition py_int :: "real \<Rightarrow> int" where
  "py_int x = (if 0 \<le> x then \<lfloor>x\<rfloor> else \<lceil>x\<rceil>)"

text \<open>
  \<open>count_cars\<close>: one for every detection row whose last column (the class) is 0. A row
  is the list of its columns; YOLO rows are never empty.
\<close>

definition count_cars :: "real list list \<Rightarrow> int" where
  "count_cars detections =
     sum_list (map (\<lambda>det. 1) (filter (\<lambda>det. py_int (last det) = 0) detections))"

text \<open>Python's \<open>round\<close> on a float: to the nearest integer, a tie to the even one.\<close>

definition py_round :: "real \<Rightarrow> int" where
  "py_round x =
     (let f = \<lfloor>x\<rfloor>; d = x - of_int f
      in if d < 1 / 2 then f
         else if 1 / 2 < d then f + 1
         else if even f then f else f + 1)"

text \<open>Lines 139-143: append, then \<open>pop(0)\<close> when the list is longer than the bound.\<close>

definition push_history :: "int list \<Rightarrow> int \<Rightarrow> int list" where
  "push_history h current_count =
     (let h1 = h @ [current_count]
      in if DETECTION_HISTORY_SIZE < length h1 then tl h1 else h1)"

text \<open>Lines 146-148.\<close>

definition smoothed :: "int list \<Rightarrow> int" where
  "smoothed h = py_round (of_int (sum_list h) / of_nat (length h))"

text \<open>Lines 152-170: the pair \<open>(state_changed, new_state)\<close>.\<close>

definition detect_change :: "int \<Rightarrow> int \<Rightarrow> bool \<times> int" where
  "detect_change confirmed smoothed_count =
     (if HIGH_TRAFFIC_THRESHOLD \<le> smoothed_count then (True, smoothed_count)
      else if confirmed = 0 \<and> 1 \<le> smoothed_count then (True, smoothed_count)
      else if 1 \<le> confirmed \<and> smoothed_count = 0 then (True, 0)
      else if 0 < \<bar>smoothed_count - confirmed\<bar> then (True, smoothed_count)
      else (False, confirmed))"

text \<open>The method returns the new state and the value it returns, the confirmed count.\<close>

definition get_confirmed_car_count :: "real \<Rightarrow> controller \<Rightarrow> int \<Rightarrow> controller \<times> int" where
  "get_confirmed_car_count current_time s current_count =
     (let h = push_history (detection_history s) current_count;
          s1 = s\<lparr>detection_history := h\<rparr>;
          (state_changed, new_state) = detect_change (confirmed_car_count s1) (smoothed h);
          s2 =
            (if state_changed then
               (if new_state \<noteq> pending_car_count s1 then
                  s1\<lparr>pending_car_count := new_state, last_state_change_time := current_time\<rparr>
                else
                  (let time_elapsed = current_time - last_state_change_time s1;
                       required_time =
                         (if HIGH_TRAFFIC_THRESHOLD \<le> new_state then 3 / 2
                          else DETECTION_CONFIRMATION_TIME)
                   in if required_time \<le> time_elapsed then
                        s1\<lparr>confirmed_car_count := new_state, pending_car_count := new_state\<rparr>
                      else s1))
             else s1\<lparr>pending_car_count := confirmed_car_count s1\<rparr>)
      in (s2, confirmed_car_count s2))"

text \<open>A stream of samples, each with the instant at which it is observed.\<close>

fun observe_all :: "controller \<Rightarrow> (real \<times> int) list \<Rightarrow> controller" where
  "observe_all s [] = s"
| "observe_all s ((t, x) # rest) = observe_all (fst (get_confirmed_car_count t s x)) rest"

subsection \<open>Command emitter (lines 236-263)\<close>

text \<open>\<open>self.arduino.write(bytes)\<close>: delivers the bytes, or raises.\<close>

definition arduino_write :: "bool \<Rightarrow> controller \<Rightarrow> string \<Rightarrow> error + controller" where
  "arduino_write ok s bytes =
     (if ok then Inr (s\<lparr>arduino_writes := arduino_writes s @ [bytes]\<rparr>)
      else Inl SerialException)"

text \<open>
  The whole body is inside \<open>try\<close>; the handler logs and returns, so a failed write
  leaves the fields as they were.
\<close>

definition send_commands :: "bool \<Rightarrow> controller \<Rightarrow> string \<Rightarrow> string \<Rightarrow> bool \<Rightarrow> controller" where
  "send_commands ok s la lb high_traffic_alert =
     (if light_a s = la \<and> light_b s = lb \<and> \<not> high_traffic_alert then s
      else
        (let command = ''A'' @ la @ ''B'' @ lb;
             command = (if high_traffic_alert then command @ ''H'' else command)
         in case arduino_write ok s command of
              Inl e \<Rightarrow> s
            | Inr s1 \<Rightarrow> s1\<lparr>light_a := la, light_b := lb\<rparr>))"

subsection \<open>Mode logic (lines 274-433)\<close>

text \<open>Lines 280-312: the yellow interval is over; called with \<open>is_yellow_transition\<close> set.\<close>

definition complete_yellow :: "bool \<Rightarrow> real \<Rightarrow> controller \<Rightarrow> int \<Rightarrow> controller" where
  "complete_yellow ok current_time s car_count =
     (let s1 =
        (if is_high_traffic_mode s then
           (let s' = (if high_traffic_direction s = ''A''
                      then send_commands ok s ''G'' ''R'' False
                      else send_commands ok s ''R'' ''G'' False)
            in s'\<lparr>high_traffic_start_time := Some current_time\<rparr>)
         else if HIGH_TRAFFIC_THRESHOLD \<le> car_count then
           (let s' = (if high_traffic_direction s = ''A''
                      then send_commands ok s ''G'' ''R'' True
                      else send_commands ok s ''R'' ''G'' True)
            in s'\<lparr>is_high_traffic_mode := True, high_traffic_start_time := Some current_time\<rparr>)
         else if car_count = 0 then send_commands ok s ''R'' ''G'' False
         else send_commands ok s ''G'' ''R'' False)
      in s1\<lparr>is_yellow_transition := False\<rparr>)"

text \<open>
  Lines 348-365 and, again, 385-400: swap the direction, turn the side that had green
  to yellow, start the yellow interval.
\<close>

definition alternate_directions :: "bool \<Rightarrow> real \<Rightarrow> controller \<Rightarrow> controller" where
  "alternate_directions ok current_time s =
     (let current_green = high_traffic_direction s;
          s1 = (if high_traffic_direction s = ''A''
                then s\<lparr>high_traffic_direction := ''B''\<rparr>
                else s\<lparr>high_traffic_direction := ''A''\<rparr>);
          s2 = (if current_green = ''A''
                then send_commands ok s1 ''Y'' ''R'' False
                else send_commands ok s1 ''R'' ''Y'' False)
      in s2\<lparr>is_yellow_transition := True, yellow_start_time := Some current_time\<rparr>)"

text \<open>Lines 316-368: \<open>car_count >= HIGH_TRAFFIC_THRESHOLD\<close>.\<close>

definition high_count_branch :: "bool \<Rightarrow> real \<Rightarrow> controller \<Rightarrow> int \<Rightarrow> error + controller" where
  "high_count_branch ok current_time s car_count =
     (if \<not> is_high_traffic_mode s then
        (if light_a s = ''G'' then
           Inr ((send_commands ok s ''Y'' ''R'' False)
                  \<lparr>is_yellow_transition := True, yellow_start_time := Some current_time,
                   high_traffic_direction := ''B''\<rparr>)
         else if light_a s = ''R'' then
           (case (if light_b s \<noteq> ''G''
                  then Inr (send_commands ok s ''R'' ''G'' True)
                  else arduino_write ok s (''H'' @ [CHR 0x0A])) of
              Inl e \<Rightarrow> Inl e
            | Inr s1 \<Rightarrow>
                Inr (s1\<lparr>is_high_traffic_mode := True,
                        high_traffic_start_time := Some current_time,
                        high_traffic_direction := ''B''\<rparr>))
         else Inr s)
      else
        (case high_traffic_start_time s of
           None \<Rightarrow> Inl TypeError
         | Some h0 \<Rightarrow>
             if HIGH_TRAFFIC_TIMER \<le> current_time - h0 then
               (if car_count = 0 then
                  Inr (send_commands ok (s\<lparr>is_high_traffic_mode := False\<rparr>) ''R'' ''G'' False)
                else Inr (alternate_directions ok current_time s))
             else Inr s))"

text \<open>Lines 371-433: \<open>car_count < HIGH_TRAFFIC_THRESHOLD\<close>.\<close>

definition low_count_branch :: "bool \<Rightarrow> real \<Rightarrow> controller \<Rightarrow> int \<Rightarrow> error + controller" where
  "low_count_branch ok current_time s car_count =
     (if is_high_traffic_mode s then
        (if car_count = 0 then
           Inr (send_commands ok (s\<lparr>is_high_traffic_mode := False\<rparr>) ''R'' ''G'' False)
         else
           (case high_traffic_start_time s of
              None \<Rightarrow> Inl TypeError
            | Some h0 \<Rightarrow>
                if HIGH_TRAFFIC_TIMER \<le> current_time - h0
                then Inr (alternate_directions ok current_time s)
                else Inr s))
      else if car_count = 0 then
        (if light_a s = ''G'' then
           Inr ((send_commands ok s ''Y'' ''R'' False)
                  \<lparr>is_yellow_transition := True, yellow_start_time := Some current_time\<rparr>)
         else if light_a s = ''R'' then
           (if light_b s \<noteq> ''G'' then Inr (send_commands ok s ''R'' ''G'' False) else Inr s)
         else Inr s)
      else if 1 \<le> car_count then
        (if light_a s = ''R'' then
           (if light_b s = ''G'' then
              Inr ((send_commands ok s ''R'' ''Y'' False)
                     \<lparr>is_yellow_transition := True, yellow_start_time := Some current_time\<rparr>)
            else Inr (send_commands ok s ''G'' ''R'' False))
         else if light_a s = ''G'' then
           (if light_b s \<noteq> ''R'' then Inr (send_commands ok s ''G'' ''R'' False) else Inr s)
         else Inr s)
      else Inr s)"

text \<open>
  The method. Subtracting \<open>None\<close> from a float raises \<open>TypeError\<close>, and the bare alert
  write of line 332 is outside any \<open>try\<close>; both leave the method as exceptions.
\<close>

definition update_traffic_lights :: "bool \<Rightarrow> real \<Rightarrow> controller \<Rightarrow> int \<Rightarrow> error + controller" where
  "update_traffic_lights ok current_time s car_count =
     (if is_yellow_transition s then
        (case yellow_start_time s of
           None \<Rightarrow> Inl TypeError
         | Some y0 \<Rightarrow>
             if YELLOW_DURATION \<le> current_time - y0
             then Inr (complete_yellow ok current_time s car_count)
             else Inr s)
      else if HIGH_TRAFFIC_THRESHOLD \<le> car_count
        then high_count_branch ok current_time s car_count
        else low_count_branch ok current_time s car_count)"

subsection \<open>The main loop (lines 600-668)\<close>

text \<open>Lines 660-668: the handler of key \<open>r\<close>.\<close>

definition reset :: "bool \<Rightarrow> controller \<Rightarrow> controller" where
  "reset ok s =
     send_commands ok
       (s\<lparr>light_a := ''R'', light_b := ''G'', is_yellow_transition := False,
          is_high_traffic_mode := False, high_traffic_direction := ''B''\<rparr>)
       ''R'' ''G'' False"

text \<open>
  One camera frame as the loop sees it: the raw count, the instants at which the two
  methods read the clock, whether a write made while handling it succeeds, and whether
  key \<open>r\<close> is pressed afterwards.
\<close>

record frame =
  raw_car_count :: int
  t_confirm :: real
  t_update :: real
  write_ok :: bool
  key_r :: bool

text \<open>Lines 627-668: one iteration of the loop body.\<close>

definition loop_body :: "controller \<Rightarrow> frame \<Rightarrow> error + controller" where
  "loop_body s f =
     (let (s1, car_count) = get_confirmed_car_count (t_confirm f) s (raw_car_count f)
      in case update_traffic_lights (write_ok f) (t_update f) s1 car_count of
           Inl e \<Rightarrow> Inl e
         | Inr s2 \<Rightarrow> Inr (if key_r f then reset (write_ok f) s2 else s2))"

text \<open>The loop over a finite stream of frames; an exception ends it.\<close>

fun run_frames :: "controller \<Rightarrow> frame list \<Rightarrow> error + controller" where
  "run_frames s [] = Inr s"
| "run_frames s (f # fs) =
     (case loop_body s f of Inl e \<Rightarrow> Inl e | Inr s' \<Rightarrow> run_frames s' fs)"

text \<open>
  \<open>run\<close> from line 609 on: the initial command, then the loop. The controller was
  constructed at instant \<open>t0\<close>.
\<close>

definition run :: "real \<Rightarrow> bool \<Rightarrow> frame list \<Rightarrow> error + controller" where
  "run t0 ok fs = run_frames (send_commands ok (init_controller t0) ''R'' ''G'' False) fs"

text \<open>
  The states the controller can be in: the state at the start of the loop, and every
  state that a call of one of the three methods or a reset leads to, at any instant,
  for any count and any outcome of the write.
\<close>

inductive reachable :: "controller \<Rightarrow> bool" where
  start: "reachable (send_commands ok (init_controller t0) ''R'' ''G'' False)"
| observe: "reachable s \<Longrightarrow> reachable (fst (get_confirmed_car_count t s current_count))"
| update: "reachable s \<Longrightarrow> update_traffic_lights ok t s car_count = Inr s' \<Longrightarrow> reachable s'"
| key_reset: "reachable s \<Longrightarrow> reachable (reset ok s)"

subsection \<open>Vocabulary of the properties\<close>

text \<open>The pair of lights the controller has on record.\<close>

definition lights :: "controller \<Rightarrow> string \<times> string" where
  "lights s = (light_a s, light_b s)"

text \<open>The command tokens \<open>A<c1>B<c2>\<close> and \<open>A<c1>B<c2>H\<close> with colours R, Y, G.\<close>

definition colours :: "string list" where
  "colours = [''R'', ''Y'', ''G'']"

definition tokens :: "string list" where
  "tokens =
     concat (map (\<lambda>c1. concat (map (\<lambda>c2.
       [''A'' @ c1 @ ''B'' @ c2, ''A'' @ c1 @ ''B'' @ c2 @ ''H'']) colours)) colours)"

definition is_token :: "string \<Rightarrow> bool" where
  "is_token w = (w \<in> set tokens)"

text \<open>The bare alert of line 332.\<close>

definition bare_alert :: string where
  "bare_alert = ''H'' @ [CHR 0x0A]"

definition wire_ok :: "string \<Rightarrow> bool" where
  "wire_ok w = (is_token w \<or> w = bare_alert)"

text \<open>What was written between two states, the later one extending the earlier.\<close>

definition new_writes :: "controller \<Rightarrow> controller \<Rightarrow> string list" where
  "new_writes s s' = drop (length (arduino_writes s)) (arduino_writes s')"

definition entered_high_traffic :: "controller \<Rightarrow> controller \<Rightarrow> bool" where
  "entered_high_traffic s s' = (is_high_traffic_mode s' \<and> \<not> is_high_traffic_mode s)"

text \<open>
  One step from \<open>s\<close> to \<open>s'\<close> wrote at most one byte string, a token or the bare alert,
  and wrote one exactly when the recorded pair of lights changed or, the link working,
  high-traffic mode was entered.
\<close>

definition one_write_per_change :: "bool \<Rightarrow> controller \<Rightarrow> controller \<Rightarrow> bool" where
  "one_write_per_change ok s s' =
     (arduino_writes s' = arduino_writes s @ new_writes s s' \<and>
      length (new_writes s s') \<le> 1 \<and>
      list_all wire_ok (new_writes s s') \<and>
      (length (new_writes s s') = 1) =
         (lights s' \<noteq> lights s \<or> ok \<and> entered_high_traffic s s'))"

text \<open>The four light pairs that the method calls of the source name.\<close>

definition legal_pairs :: "(string \<times> string) set" where
  "legal_pairs = {(''R'', ''G''), (''G'', ''R''), (''Y'', ''R''), (''R'', ''Y'')}"

text \<open>
  The pair that lines 282-310 pass to \<open>send_commands\<close> when the yellow interval is
  over, as a function of the mode, the recorded direction and the count at that
  instant.
\<close>

definition yellow_target :: "controller \<Rightarrow> int \<Rightarrow> string \<times> string" where
  "yellow_target s c =
     (if is_high_traffic_mode s \<or> HIGH_TRAFFIC_THRESHOLD \<le> c
      then (if high_traffic_direction s = ''A'' then (''G'', ''R'') else (''R'', ''G''))
      else if c = 0 then (''R'', ''G'') else (''G'', ''R''))"

text \<open>
  The confirmed count is \<open>c\<close>, and a candidate other than \<open>c\<close> has been pending
  since \<open>t0\<close> at the earliest.
\<close>

definition quiet_since :: "int \<Rightarrow> real \<Rightarrow> controller \<Rightarrow> bool" where
  "quiet_since c t0 s =
     (confirmed_car_count s = c \<and>
      (pending_car_count s = c \<or> t0 \<le> last_state_change_time s))"

text \<open>The history is within its bound and its last \<open>k\<close> entries are \<open>c\<close>.\<close>

definition const_tail :: "nat \<Rightarrow> int \<Rightarrow> controller \<Rightarrow> bool" where
  "const_tail k c s =
     (length (detection_history s) \<le> 10 \<and>
      (\<exists>pre. detection_history s = pre @ replicate k c))"

subsection \<open>Sample states and runs\<close>

text \<open>
  From the initial state, a count of 3 at instant 0 starts the yellow interval of
  side B.
\<close>

definition sample_yellow :: controller where
  "sample_yellow =
     (init_controller 0)
       \<lparr>light_b := ''Y'', yellow_start_time := Some 0, is_yellow_transition := True,
        arduino_writes := [''ARBY'']\<rparr>"

text \<open>From the initial state, a count of 8 at instant 0 enters high-traffic mode.\<close>

definition sample_high :: controller where
  "sample_high =
     (init_controller 0)
       \<lparr>high_traffic_start_time := Some 0, is_high_traffic_mode := True,
        arduino_writes := [''H'' @ [CHR 0x0A]]\<rparr>"

text \<open>A frame with raw count \<open>x\<close> handled at instant \<open>t\<close>, the link working, no key.\<close>

definition frame_at :: "int \<Rightarrow> real \<Rightarrow> frame" where
  "frame_at x t =
     \<lparr>raw_car_count = x, t_confirm = t, t_update = t, write_ok = True, key_r = False\<rparr>"

text \<open>Nine cars seen twice, two seconds apart.\<close>

definition high_frames :: "frame list" where
  "high_frames = [frame_at 9 0, frame_at 9 2]"

text \<open>
  Nine cars until high-traffic mode has given side A the green (instant 34), then an
  empty road, one frame a second, and a last frame three seconds later.
\<close>

definition exit_frames :: "frame list" where
  "exit_frames =
     [frame_at 9 0, frame_at 9 2, frame_at 9 32, frame_at 9 34,
      frame_at 0 35, frame_at 0 36, frame_at 0 37, frame_at 0 38, frame_at 0 39,
      frame_at 0 40, frame_at 0 41, frame_at 0 42, frame_at 0 43, frame_at 0 44,
      frame_at 0 47]"

text \<open>Three cars until side A has the green; the key \<open>r\<close> is pressed on the last frame.\<close>

definition reset_frames :: "frame list" where
  "reset_frames = [frame_at 3 0, frame_at 3 3, (frame_at 3 5)\<lparr>key_r := True\<rparr>]"

text \<open>The same frames without the key.\<close>

definition no_reset_frames :: "frame list" where
  "no_reset_frames = [frame_at 3 0, frame_at 3 3, frame_at 3 5]"

text \<open>
  Ten samples of an empty road, one a second, then one sample of nine cars, then an
  empty road again three seconds later.
\<close>

definition slow_outlier_samples :: "(real \<times> int) list" where
  "slow_outlier_samples =
     [(1, 0), (2, 0), (3, 0), (4, 0), (5, 0), (6, 0), (7, 0), (8, 0), (9, 0), (10, 0),
      (11, 9), (14, 0)]"

text \<open>
  The instants of eleven samples after an outlier at instant 1: nine within a second of
  it, two much later.
\<close>

definition fast_instants :: "real list" where
  "fast_instants =
     [11 / 10, 12 / 10, 13 / 10, 14 / 10, 15 / 10, 16 / 10, 17 / 10, 18 / 10, 19 / 10,
      10, 20]"

section \<open>Properties\<close>

subsection \<open>The command emitter\<close>

lemma send_commands_fail: "send_commands False s la lb alert = s"
  by (simp add: send_commands_def arduino_write_def Let_def)

lemma lights_send_commands:
  "lights (send_commands ok s la lb alert) = (if ok then (la, lb) else lights s)"
  by (auto simp: send_commands_def arduino_write_def lights_def Let_def)

lemma writes_send_commands:
  "arduino_writes (send_commands ok s la lb alert) =
     arduino_writes s @
       (if ok \<and> \<not> (light_a s = la \<and> light_b s = lb \<and> \<not> alert)
        then [''A'' @ la @ ''B'' @ lb @ (if alert then ''H'' else [])] else [])"
  by (auto simp: send_commands_def arduino_write_def Let_def)

lemma others_send_commands:
  "is_yellow_transition (send_commands ok s la lb alert) = is_yellow_transition s"
  "is_high_traffic_mode (send_commands ok s la lb alert) = is_high_traffic_mode s"
  "high_traffic_direction (send_commands ok s la lb alert) = high_traffic_direction s"
  "yellow_start_time (send_commands ok s la lb alert) = yellow_start_time s"
  "high_traffic_start_time (send_commands ok s la lb alert) = high_traffic_start_time s"
  "detection_history (send_commands ok s la lb alert) = detection_history s"
  "confirmed_car_count (send_commands ok s la lb alert) = confirmed_car_count s"
  "pending_car_count (send_commands ok s la lb alert) = pending_car_count s"
  "last_state_change_time (send_commands ok s la lb alert) = last_state_change_time s"
  by (auto simp: send_commands_def arduino_write_def Let_def)

text \<open>
  C7. When the write raises, the recorded pair of lights stays as it was, and the next
  call with the same arguments, which would write on its own account (the pair differs
  from the recorded one, or the alert is requested), writes the command again.
\<close>

theorem failed_write_keeps_last_sent:
  "lights (send_commands False s la lb alert) = lights s \<and>
   (lights s \<noteq> (la, lb) \<or> alert \<longrightarrow>
      arduino_writes (send_commands True (send_commands False s la lb alert) la lb alert) =
        arduino_writes s @ [''A'' @ la @ ''B'' @ lb @ (if alert then ''H'' else [])] \<and>
      lights (send_commands True (send_commands False s la lb alert) la lb alert) = (la, lb))"
proof -
  have written: "lights s \<noteq> (la, lb) \<or> alert \<Longrightarrow>
      arduino_writes (send_commands True s la lb alert) =
        arduino_writes s @ [''A'' @ la @ ''B'' @ lb @ (if alert then ''H'' else [])]"
    by (auto simp: writes_send_commands lights_def)
  have "lights (send_commands True s la lb alert) = (la, lb)"
    by (simp add: lights_send_commands)
  with written show ?thesis
    by (simp add: send_commands_fail)
qed

theorem failed_write_keeps_last_sent_witness:
  "lights (init_controller 0) \<noteq> (''G'', ''R'') \<and>
   lights (send_commands False (init_controller 0) ''G'' ''R'' False) = (''R'', ''G'') \<and>
   arduino_writes
     (send_commands True (send_commands False (init_controller 0) ''G'' ''R'' False)
        ''G'' ''R'' False) = [''AGBR'']"
  using failed_write_keeps_last_sent [of "init_controller 0" "''G''" "''R''" False]
  by (simp add: init_controller_def lights_def)

text \<open>
  C8. Two calls in a row with the same pair and no alert: when the pair differs from
  the recorded one and the write succeeds, the first call writes the one command and
  the second call changes nothing at all, whatever the link would do.
\<close>

theorem send_commands_twice_one_write:
  "lights s \<noteq> (la, lb) \<Longrightarrow>
     arduino_writes (send_commands True s la lb False) =
       arduino_writes s @ [''A'' @ la @ ''B'' @ lb] \<and>
     send_commands ok2 (send_commands True s la lb False) la lb False =
       send_commands True s la lb False"
  by (auto simp: send_commands_def arduino_write_def lights_def Let_def)

theorem send_commands_twice_one_write_witness:
  "lights (init_controller 0) \<noteq> (''G'', ''R'') \<and>
   arduino_writes (send_commands True (init_controller 0) ''G'' ''R'' False) = [''AGBR''] \<and>
   arduino_writes
     (send_commands True (send_commands True (init_controller 0) ''G'' ''R'' False)
        ''G'' ''R'' False) = [''AGBR'']"
  using send_commands_twice_one_write [of "init_controller 0" "''G''" "''R''" True]
  by (simp add: init_controller_def lights_def)

subsection \<open>The recorded pair of lights\<close>

lemma lights_upd [simp]:
  "lights (s\<lparr>is_yellow_transition := b\<rparr>) = lights s"
  "lights (s\<lparr>is_high_traffic_mode := b\<rparr>) = lights s"
  "lights (s\<lparr>high_traffic_direction := d\<rparr>) = lights s"
  "lights (s\<lparr>yellow_start_time := y\<rparr>) = lights s"
  "lights (s\<lparr>high_traffic_start_time := y\<rparr>) = lights s"
  "lights (s\<lparr>detection_history := h\<rparr>) = lights s"
  "lights (s\<lparr>confirmed_car_count := n\<rparr>) = lights s"
  "lights (s\<lparr>pending_car_count := n\<rparr>) = lights s"
  "lights (s\<lparr>last_state_change_time := r\<rparr>) = lights s"
  "lights (s\<lparr>arduino_writes := w\<rparr>) = lights s"
  by (simp_all add: lights_def)

lemma legal_pairs_mem:
  "(''R'', ''G'') \<in> legal_pairs" "(''G'', ''R'') \<in> legal_pairs"
  "(''Y'', ''R'') \<in> legal_pairs" "(''R'', ''Y'') \<in> legal_pairs"
  by (simp_all add: legal_pairs_def)

lemma legal_complete_yellow:
  "lights s \<in> legal_pairs \<Longrightarrow> lights (complete_yellow ok t s c) \<in> legal_pairs"
  by (simp add: complete_yellow_def Let_def lights_send_commands legal_pairs_mem)

lemma legal_alternate_directions:
  "lights s \<in> legal_pairs \<Longrightarrow> lights (alternate_directions ok t s) \<in> legal_pairs"
  by (simp add: alternate_directions_def Let_def lights_send_commands legal_pairs_mem)

lemma legal_high_count_branch:
  "lights s \<in> legal_pairs \<Longrightarrow> high_count_branch ok t s c = Inr s' \<Longrightarrow>
     lights s' \<in> legal_pairs"
  by (auto simp: high_count_branch_def lights_send_commands legal_alternate_directions
        arduino_write_def legal_pairs_mem
      split: if_splits option.splits sum.splits)

lemma legal_low_count_branch:
  "lights s \<in> legal_pairs \<Longrightarrow> low_count_branch ok t s c = Inr s' \<Longrightarrow>
     lights s' \<in> legal_pairs"
  by (auto simp: low_count_branch_def lights_send_commands legal_alternate_directions
        legal_pairs_mem
      split: if_splits option.splits)

lemma legal_update_traffic_lights:
  "lights s \<in> legal_pairs \<Longrightarrow> update_traffic_lights ok t s c = Inr s' \<Longrightarrow>
     lights s' \<in> legal_pairs"
  by (auto simp: update_traffic_lights_def legal_complete_yellow
      dest: legal_high_count_branch legal_low_count_branch
      split: if_splits option.splits)

lemma lights_get_confirmed_car_count:
  "lights (fst (get_confirmed_car_count t s x)) = lights s"
  by (simp add: get_confirmed_car_count_def Let_def split: prod.splits)

lemma lights_reset: "lights (reset ok s) = (''R'', ''G'')"
  by (simp add: reset_def send_commands_def lights_def Let_def)

lemma reachable_legal: "reachable s \<Longrightarrow> lights s \<in> legal_pairs"
proof (induction rule: reachable.induct)
  case (start ok t0)
  show ?case
    by (simp add: send_commands_def init_controller_def lights_def legal_pairs_def)
next
  case (observe s t current_count)
  then show ?case by (simp add: lights_get_confirmed_car_count)
next
  case (update s ok t car_count s')
  from update.IH update.hyps(2) show ?case by (rule legal_update_traffic_lights)
next
  case (key_reset s ok)
  show ?case by (simp add: lights_reset legal_pairs_mem)
qed

lemma reachable_init: "reachable (init_controller t0)"
  using reachable.start [of True t0]
  by (simp add: send_commands_def init_controller_def)

lemma update_init_3:
  "update_traffic_lights True 0 (init_controller 0) 3 = Inr sample_yellow"
  by (simp add: update_traffic_lights_def low_count_branch_def send_commands_def
      arduino_write_def init_controller_def sample_yellow_def HIGH_TRAFFIC_THRESHOLD_def Let_def)

lemma reachable_sample_yellow: "reachable sample_yellow"
  using reachable.update [OF reachable_init update_init_3] .

text \<open>
  C1. In every reachable state the two directions are not both green, and a
  direction that shows yellow faces red on the other side.
\<close>

theorem never_both_green:
  "reachable s \<Longrightarrow>
     \<not> (light_a s = ''G'' \<and> light_b s = ''G'') \<and>
     (light_a s = ''Y'' \<longrightarrow> light_b s = ''R'') \<and>
     (light_b s = ''Y'' \<longrightarrow> light_a s = ''R'')"
  by (drule reachable_legal) (auto simp: legal_pairs_def lights_def)

theorem never_both_green_witness:
  "reachable sample_yellow \<and> light_b sample_yellow = ''Y'' \<and> light_a sample_yellow = ''R''"
  using never_both_green [OF reachable_sample_yellow] reachable_sample_yellow
  by (simp add: sample_yellow_def)

text \<open>
  C10. In every reachable state the pair of lights is one of (R,G), (G,R), (Y,R),
  (R,Y); so the two sides are never both red, and a yellow side never faces green or
  yellow.
\<close>

theorem lights_one_of_four:
  "reachable s \<Longrightarrow>
     (lights s = (''R'', ''G'') \<or> lights s = (''G'', ''R'') \<or>
      lights s = (''Y'', ''R'') \<or> lights s = (''R'', ''Y'')) \<and>
     lights s \<noteq> (''R'', ''R'') \<and>
     lights s \<notin> {(''Y'', ''G''), (''Y'', ''Y''), (''G'', ''Y'')}"
  by (drule reachable_legal) (auto simp: legal_pairs_def)

theorem lights_one_of_four_witness:
  "reachable sample_yellow \<and> lights sample_yellow = (''R'', ''Y'')"
  using lights_one_of_four [OF reachable_sample_yellow] reachable_sample_yellow
  by (simp add: sample_yellow_def lights_def init_controller_def)

subsection \<open>What reaches the serial link\<close>

lemma tokens_mem:
  "is_token ''ARBG''" "is_token ''AGBR''" "is_token ''AYBR''" "is_token ''ARBY''"
  "is_token ''ARBGH''" "is_token ''AGBRH''"
  by (simp_all add: is_token_def tokens_def colours_def)

lemma light_ab_send_commands:
  "light_a (send_commands ok s la lb alert) = (if ok then la else light_a s)"
  "light_b (send_commands ok s la lb alert) = (if ok then lb else light_b s)"
  by (auto simp: send_commands_def arduino_write_def Let_def)

lemma one_write_complete_yellow:
  "one_write_per_change ok s (complete_yellow ok t s c)"
  using tokens_mem
  by (auto simp: one_write_per_change_def new_writes_def complete_yellow_def Let_def
      writes_send_commands light_ab_send_commands entered_high_traffic_def
      others_send_commands wire_ok_def lights_def)

lemma one_write_alternate_directions:
  "is_high_traffic_mode s \<Longrightarrow> one_write_per_change ok s (alternate_directions ok t s)"
  using tokens_mem
  by (auto simp: one_write_per_change_def new_writes_def alternate_directions_def Let_def
      writes_send_commands light_ab_send_commands entered_high_traffic_def
      others_send_commands wire_ok_def lights_def)

lemma one_write_high_count_branch:
  "high_count_branch ok t s c = Inr s' \<Longrightarrow> one_write_per_change ok s s'"
  using tokens_mem one_write_alternate_directions [of s ok t]
  by (auto simp: high_count_branch_def one_write_per_change_def new_writes_def
        writes_send_commands light_ab_send_commands entered_high_traffic_def
        others_send_commands wire_ok_def lights_def arduino_write_def bare_alert_def
      split: if_splits option.splits sum.splits)

lemma one_write_low_count_branch:
  "low_count_branch ok t s c = Inr s' \<Longrightarrow> one_write_per_change ok s s'"
  using tokens_mem one_write_alternate_directions [of s ok t]
  by (auto simp: low_count_branch_def one_write_per_change_def new_writes_def
        writes_send_commands light_ab_send_commands entered_high_traffic_def
        others_send_commands wire_ok_def lights_def
      split: if_splits option.splits)

lemma one_write_refl: "one_write_per_change ok s s"
  by (simp add: one_write_per_change_def new_writes_def entered_high_traffic_def)

lemma one_write_update_traffic_lights:
  "update_traffic_lights ok t s c = Inr s' \<Longrightarrow> one_write_per_change ok s s'"
  by (auto simp: update_traffic_lights_def one_write_complete_yellow one_write_refl
      dest: one_write_high_count_branch one_write_low_count_branch
      split: if_splits option.splits)

lemma writes_get_confirmed_car_count:
  "arduino_writes (fst (get_confirmed_car_count t s x)) = arduino_writes s"
  by (simp add: get_confirmed_car_count_def Let_def split: prod.splits)

lemma writes_reset: "arduino_writes (reset ok s) = arduino_writes s"
  by (simp add: reset_def send_commands_def Let_def)

lemma reachable_wire_ok: "reachable s \<Longrightarrow> list_all wire_ok (arduino_writes s)"
proof (induction rule: reachable.induct)
  case (start ok t0)
  show ?case by (simp add: send_commands_def init_controller_def)
next
  case (observe s t current_count)
  then show ?case by (simp add: writes_get_confirmed_car_count)
next
  case (update s ok t car_count s')
  from update.hyps(2) have "one_write_per_change ok s s'"
    by (rule one_write_update_traffic_lights)
  with update.IH show ?case by (auto simp: one_write_per_change_def)
next
  case (key_reset s ok)
  then show ?case by (simp add: writes_reset)
qed

lemma bare_alert_only:
  "update_traffic_lights ok t s c = Inr s' \<Longrightarrow> bare_alert \<in> set (new_writes s s') \<Longrightarrow>
     lights s = (''R'', ''G'') \<and> HIGH_TRAFFIC_THRESHOLD \<le> c \<and> entered_high_traffic s s'"
  by (auto simp: update_traffic_lights_def complete_yellow_def high_count_branch_def
        low_count_branch_def alternate_directions_def new_writes_def writes_send_commands
        others_send_commands Let_def bare_alert_def arduino_write_def
        entered_high_traffic_def lights_def
      split: if_splits option.splits sum.splits)

lemma update_init_8:
  "update_traffic_lights True 0 (init_controller 0) 8 = Inr sample_high"
  by (simp add: update_traffic_lights_def high_count_branch_def arduino_write_def
      init_controller_def sample_high_def HIGH_TRAFFIC_THRESHOLD_def)

lemmas eval_defs =
  run_def loop_body_def get_confirmed_car_count_def push_history_def smoothed_def
  py_round_def detect_change_def update_traffic_lights_def high_count_branch_def
  low_count_branch_def complete_yellow_def alternate_directions_def send_commands_def
  arduino_write_def reset_def init_controller_def frame_at_def
  HIGH_TRAFFIC_THRESHOLD_def HIGH_TRAFFIC_TIMER_def YELLOW_DURATION_def
  DETECTION_CONFIRMATION_TIME_def DETECTION_HISTORY_SIZE_def lights_def Let_def

text \<open>
  C4, as the spec has it, fails: when the confirmed count reaches the threshold while
  the lights are already A red, B green, line 332 writes the alert flag alone,
  \<open>H\<close> and a newline, which is no token.
\<close>

theorem bare_alert_counterexample:
  "map_sum id arduino_writes (run 0 True high_frames) = Inr [''H'' @ [CHR 0x0A]] \<and>
   \<not> is_token (''H'' @ [CHR 0x0A])"
  by (simp add: high_frames_def eval_defs is_token_def tokens_def colours_def)

text \<open>
  C4, amended. Every byte string written in a reachable state is one token
  \<open>A<c1>B<c2>\<close> or \<open>A<c1>B<c2>H\<close> or the bare alert; a call of
  \<open>update_traffic_lights\<close> writes at most one byte string, and writes one exactly
  when it changes the recorded pair of lights or, the link working, enters
  high-traffic mode; the bare alert is written only on entering high-traffic mode
  with the lights at A red, B green.
\<close>

theorem writes_are_tokens_or_bare_alert:
  assumes "reachable s" and "update_traffic_lights ok t s c = Inr s'"
  shows "list_all wire_ok (arduino_writes s) \<and> list_all wire_ok (arduino_writes s') \<and>
     one_write_per_change ok s s' \<and>
     (bare_alert \<in> set (new_writes s s') \<longrightarrow>
        lights s = (''R'', ''G'') \<and> HIGH_TRAFFIC_THRESHOLD \<le> c \<and>
        entered_high_traffic s s')"
proof -
  from assms have "reachable s'" by (rule reachable.update)
  with assms show ?thesis
    using reachable_wire_ok one_write_update_traffic_lights bare_alert_only by blast
qed

theorem writes_are_tokens_or_bare_alert_witness:
  "reachable (init_controller 0) \<and>
   update_traffic_lights True 0 (init_controller 0) 8 = Inr sample_high \<and>
   bare_alert \<in> set (new_writes (init_controller 0) sample_high) \<and>
   one_write_per_change True (init_controller 0) sample_high \<and>
   lights (init_controller 0) = (''R'', ''G'') \<and>
   entered_high_traffic (init_controller 0) sample_high"
proof -
  have "bare_alert \<in> set (new_writes (init_controller 0) sample_high)"
    by (simp add: new_writes_def init_controller_def sample_high_def bare_alert_def)
  with writes_are_tokens_or_bare_alert [OF reachable_init update_init_8]
  show ?thesis
    using reachable_init update_init_8 by simp
qed

subsection \<open>The end of the yellow interval\<close>

text \<open>
  C3, as the spec has it, fails: no target is recorded when the interval begins. The
  interval below begins on a count of 3, which asks for green on side A; the count is
  0 when it ends, and the lights go to A red, B green.
\<close>

theorem yellow_target_counterexample:
  "update_traffic_lights True 0 (init_controller 0) 3 = Inr sample_yellow \<and>
   map_sum id lights (update_traffic_lights True 2 sample_yellow 0) = Inr (''R'', ''G'')"
  by (simp add: update_init_3) (simp add: sample_yellow_def eval_defs)

text \<open>
  C3, amended. When the yellow interval is over, the call clears the yellow flag and
  asks for the pair that the state and the count at that instant decide: in
  high-traffic mode the recorded direction, whatever the count, with no alert, and
  the 30-second window restarts; otherwise, on a count of 8 or more, the recorded
  direction with the alert flag, and high-traffic mode is entered with its window
  starting now; otherwise A red, B green on a count of 0 and A green, B red on any
  other count. The recorded pair follows when the write succeeds.
\<close>

theorem yellow_completion_by_current_count:
  assumes "is_yellow_transition s" and "yellow_start_time s = Some y0"
    and "YELLOW_DURATION \<le> now - y0"
  shows "update_traffic_lights ok now s c = Inr (complete_yellow ok now s c) \<and>
     lights (complete_yellow ok now s c) = (if ok then yellow_target s c else lights s) \<and>
     \<not> is_yellow_transition (complete_yellow ok now s c) \<and>
     is_high_traffic_mode (complete_yellow ok now s c) =
       (is_high_traffic_mode s \<or> HIGH_TRAFFIC_THRESHOLD \<le> c) \<and>
     high_traffic_start_time (complete_yellow ok now s c) =
       (if is_high_traffic_mode s \<or> HIGH_TRAFFIC_THRESHOLD \<le> c then Some now
        else high_traffic_start_time s) \<and>
     new_writes s (complete_yellow ok now s c) =
       (if \<not> ok then []
        else if \<not> is_high_traffic_mode s \<and> HIGH_TRAFFIC_THRESHOLD \<le> c
          then [''A'' @ fst (yellow_target s c) @ ''B'' @ snd (yellow_target s c) @ ''H'']
        else if lights s = yellow_target s c then []
        else [''A'' @ fst (yellow_target s c) @ ''B'' @ snd (yellow_target s c)])"
  using assms
  by (auto simp: update_traffic_lights_def complete_yellow_def Let_def yellow_target_def
      light_ab_send_commands others_send_commands writes_send_commands new_writes_def
      lights_def)

theorem yellow_completion_by_current_count_witness:
  "is_yellow_transition sample_yellow \<and> yellow_start_time sample_yellow = Some 0 \<and>
   YELLOW_DURATION \<le> 2 - 0 \<and>
   lights (complete_yellow True 2 sample_yellow 0) = (''R'', ''G'') \<and>
   lights (complete_yellow True 2 sample_yellow 9) = (''R'', ''G'') \<and>
   new_writes sample_yellow (complete_yellow True 2 sample_yellow 9) = [''ARBGH''] \<and>
   lights (complete_yellow True 2 sample_yellow 3) = (''G'', ''R'')"
proof -
  have h: "is_yellow_transition sample_yellow" "yellow_start_time sample_yellow = Some 0"
    "YELLOW_DURATION \<le> 2 - 0"
    by (simp_all add: sample_yellow_def YELLOW_DURATION_def)
  from yellow_completion_by_current_count [OF h, of True 0]
    yellow_completion_by_current_count [OF h, of True 9]
    yellow_completion_by_current_count [OF h, of True 3] h
  show ?thesis
    by (simp add: yellow_target_def sample_yellow_def init_controller_def
        HIGH_TRAFFIC_THRESHOLD_def lights_def)
qed

subsection \<open>The detection stabilizer\<close>

lemma history_get_confirmed_car_count:
  "detection_history (fst (get_confirmed_car_count t s x)) =
     push_history (detection_history s) x"
  by (simp add: get_confirmed_car_count_def Let_def split: prod.splits)

text \<open>
  C9, as the spec has it, fails: nothing checks the sign of the count. A count of -5
  enters the history and becomes the pending candidate with its timer restarted, and
  three seconds later it is the confirmed count.
\<close>

theorem negative_count_counterexample:
  "detection_history (fst (get_confirmed_car_count 1 (init_controller 0) (- 5))) = [- 5] \<and>
   pending_car_count (fst (get_confirmed_car_count 1 (init_controller 0) (- 5))) = - 5 \<and>
   last_state_change_time (fst (get_confirmed_car_count 1 (init_controller 0) (- 5))) = 1 \<and>
   snd (get_confirmed_car_count 4
          (fst (get_confirmed_car_count 1 (init_controller 0) (- 5))) (- 5)) = - 5"
  by (simp add: eval_defs)

text \<open>
  C9, amended. A raw count, negative or not, is not rejected: it is appended to the
  history like any other sample. The call returns the previous confirmed count,
  unchanged, when no candidate was pending before it (the pending count equals the
  confirmed count).
\<close>

theorem negative_count_is_a_sample:
  "detection_history (fst (get_confirmed_car_count t s x)) =
     push_history (detection_history s) x \<and>
   x \<in> set (push_history (detection_history s) x) \<and>
   (pending_car_count s = confirmed_car_count s \<longrightarrow>
      snd (get_confirmed_car_count t s x) = confirmed_car_count s \<and>
      confirmed_car_count (fst (get_confirmed_car_count t s x)) = confirmed_car_count s)"
proof -
  have "x \<in> set (push_history (detection_history s) x)"
    by (cases "detection_history s")
      (simp_all add: push_history_def DETECTION_HISTORY_SIZE_def Let_def)
  then show ?thesis
    by (auto simp: get_confirmed_car_count_def Let_def split: prod.splits if_splits)
qed

theorem negative_count_is_a_sample_witness:
  "pending_car_count (init_controller 0) = confirmed_car_count (init_controller 0) \<and>
   detection_history (fst (get_confirmed_car_count 1 (init_controller 0) (- 5))) = [- 5] \<and>
   snd (get_confirmed_car_count 1 (init_controller 0) (- 5)) = 0"
  using negative_count_is_a_sample [of 1 "init_controller 0" "- 5"]
  by (simp add: init_controller_def push_history_def DETECTION_HISTORY_SIZE_def)

lemma observe_all_append:
  "observe_all s (xs @ ys) = observe_all (observe_all s xs) ys"
  by (induction s xs rule: observe_all.induct) simp_all

lemma quiet_since_step:
  assumes "quiet_since c t0 s" and "t0 \<le> t" and "t - t0 < 3 / 2"
  shows "quiet_since c t0 (fst (get_confirmed_car_count t s x))"
  using assms
  by (auto simp: quiet_since_def get_confirmed_car_count_def Let_def
        DETECTION_CONFIRMATION_TIME_def
      split: prod.splits if_splits)

lemma quiet_since_observe_all:
  "quiet_since c t0 s \<Longrightarrow> \<forall>p \<in> set samples. t0 \<le> fst p \<and> fst p - t0 < 3 / 2 \<Longrightarrow>
     quiet_since c t0 (observe_all s samples)"
proof (induction samples arbitrary: s)
  case Nil
  then show ?case by simp
next
  case (Cons p samples)
  obtain t x where p: "p = (t, x)" by (cases p)
  from Cons.prems p have "quiet_since c t0 (fst (get_confirmed_car_count t s x))"
    by (intro quiet_since_step) auto
  with Cons p show ?case by simp
qed

lemma length_push_history: "length h \<le> 10 \<Longrightarrow> length (push_history h x) \<le> 10"
  by (simp add: push_history_def DETECTION_HISTORY_SIZE_def Let_def)

lemma const_tail_outlier:
  "length (detection_history s) \<le> 10 \<Longrightarrow>
     const_tail 0 c (fst (get_confirmed_car_count t s v))"
  by (simp add: const_tail_def history_get_confirmed_car_count length_push_history)

lemma push_history_tail:
  assumes "length h \<le> 10" and "h = pre @ replicate k c"
  shows "\<exists>pre'. push_history h c = pre' @ replicate (min 10 (Suc k)) c"
proof (cases pre)
  case Nil
  with assms have "push_history h c = replicate (min 10 (Suc k)) c"
    by (auto simp: push_history_def DETECTION_HISTORY_SIZE_def Let_def
          replicate_append_same min_def
        simp flip: replicate_Suc)
  then show ?thesis by simp
next
  case (Cons p ps)
  with assms have k: "min 10 (Suc k) = Suc k" by simp
  have "h @ [c] = p # ps @ replicate (Suc k) c"
    using assms(2) Cons by (simp add: replicate_append_same)
  then have "push_history h c = ps @ replicate (Suc k) c \<or>
      push_history h c = (p # ps) @ replicate (Suc k) c"
    by (simp add: push_history_def Let_def)
  with k show ?thesis by metis
qed

lemma const_tail_step:
  "const_tail k c s \<Longrightarrow>
     const_tail (min 10 (Suc k)) c (fst (get_confirmed_car_count t s c))"
  unfolding const_tail_def history_get_confirmed_car_count
  using push_history_tail length_push_history by blast

lemma const_tail_observe_all:
  "const_tail k c s \<Longrightarrow>
     const_tail (min 10 (k + length ts)) c (observe_all s (map (\<lambda>t. (t, c)) ts))"
proof (induction ts arbitrary: s k)
  case Nil
  then have "k \<le> 10" by (auto simp: const_tail_def)
  with Nil show ?case by (simp add: min_absorb2)
next
  case (Cons t ts)
  from Cons.prems have "const_tail (min 10 (Suc k)) c (fst (get_confirmed_car_count t s c))"
    by (rule const_tail_step)
  then have "const_tail (min 10 (min 10 (Suc k) + length ts)) c
      (observe_all (fst (get_confirmed_car_count t s c)) (map (\<lambda>t. (t, c)) ts))"
    by (rule Cons.IH)
  moreover have "min 10 (min 10 (Suc k) + length ts) = min 10 (k + length (t # ts))"
    by simp
  ultimately show ?case by simp
qed

lemma smoothed_replicate: "smoothed (replicate 10 c) = c"
  by (simp add: smoothed_def py_round_def sum_list_replicate)

lemma settled_step:
  assumes "const_tail 9 c s" and "confirmed_car_count s = c"
  shows "const_tail 9 c (fst (get_confirmed_car_count t s c)) \<and>
         confirmed_car_count (fst (get_confirmed_car_count t s c)) = c"
proof -
  let ?s' = "fst (get_confirmed_car_count t s c)"
  from assms(1) have ten: "const_tail 10 c ?s'"
    using const_tail_step [of 9 c s t] by simp
  then have full: "detection_history ?s' = replicate 10 c"
    by (auto simp: const_tail_def)
  then have push: "push_history (detection_history s) c = replicate 10 c"
    by (simp add: history_get_confirmed_car_count)
  have conf: "confirmed_car_count ?s' = c"
    using assms(2)
    by (auto simp: get_confirmed_car_count_def Let_def push smoothed_replicate
          detect_change_def
        split: prod.splits if_splits)
  have "replicate 10 c = [c] @ replicate 9 c"
    by (simp add: eval_nat_numeral)
  with ten full have "const_tail 9 c ?s'"
    unfolding const_tail_def by metis
  with conf show ?thesis by simp
qed

lemma settled_observe_all:
  "const_tail 9 c s \<Longrightarrow> confirmed_car_count s = c \<Longrightarrow>
     confirmed_car_count (observe_all s (map (\<lambda>t. (t, c)) ts)) = c"
proof (induction ts arbitrary: s)
  case Nil
  then show ?case by simp
next
  case (Cons t ts)
  from settled_step [OF Cons.prems] Cons.IH show ?case by simp
qed

lemma outlier_stream:
  assumes len: "length (detection_history s) \<le> 10"
    and conf: "confirmed_car_count s = c" and pend: "pending_car_count s = c"
    and window: "\<forall>t \<in> set (take 9 ts). t0 \<le> t \<and> t - t0 < 3 / 2"
  shows "confirmed_car_count (observe_all s ((t0, v) # map (\<lambda>t. (t, c)) ts)) = c"
proof -
  let ?f = "\<lambda>t. (t, c)"
  let ?A = "(t0, v) # map ?f (take 9 ts)"
  let ?sA = "observe_all s ?A"
  have split: "(t0, v) # map ?f ts = ?A @ map ?f (drop 9 ts)"
    by (simp flip: map_append)
  have "quiet_since c t0 s"
    using conf pend by (simp add: quiet_since_def)
  moreover have "\<forall>p \<in> set ?A. t0 \<le> fst p \<and> fst p - t0 < 3 / 2"
    using window by auto
  ultimately have quiet: "quiet_since c t0 ?sA"
    by (rule quiet_since_observe_all)
  then have confA: "confirmed_car_count ?sA = c"
    by (simp add: quiet_since_def)
  show ?thesis
  proof (cases "length ts \<le> 9")
    case True
    then show ?thesis using confA by simp
  next
    case False
    have "const_tail 0 c (fst (get_confirmed_car_count t0 s v))"
      using len by (rule const_tail_outlier)
    then have "const_tail (min 10 (0 + length (take 9 ts))) c
        (observe_all (fst (get_confirmed_car_count t0 s v)) (map ?f (take 9 ts)))"
      by (rule const_tail_observe_all)
    then have "const_tail 9 c ?sA"
      using False by simp
    then have "confirmed_car_count (observe_all ?sA (map ?f (drop 9 ts))) = c"
      using confA by (rule settled_observe_all)
    then show ?thesis
      by (simp only: split observe_all_append)
  qed
qed

text \<open>
  C6, as the spec has it, fails for slow sampling: the outlier stays in the history
  for ten samples and lifts the rounded mean to 1 all that time. Below, the road is
  empty for ten samples, one frame reports nine cars at instant 11, and the next
  frame, empty again, comes at instant 14: the confirmed count goes from 0 to 1.
\<close>

theorem slow_outlier_counterexample:
  "confirmed_car_count (observe_all (init_controller 0) (butlast slow_outlier_samples)) = 0 \<and>
   confirmed_car_count (observe_all (init_controller 0) slow_outlier_samples) = 1"
  by (simp add: slow_outlier_samples_def eval_defs)

text \<open>
  C6, amended. Let the confirmed count be \<open>c\<close> with no candidate pending and the
  history within its bound; let one sample \<open>v\<close> arrive at \<open>t0\<close>, followed by any
  number of samples \<open>c\<close>. If the first nine of these, the ones observed while the
  outlier is still in the history, arrive no earlier than \<open>t0\<close> and less than 1.5
  seconds after it, the confirmed count is \<open>c\<close> after every sample of the stream.
\<close>

theorem single_outlier_debounced:
  assumes "length (detection_history s) \<le> 10"
    and "confirmed_car_count s = c" and "pending_car_count s = c"
    and "\<forall>t \<in> set (take 9 ts). t0 \<le> t \<and> t - t0 < 3 / 2"
  shows "confirmed_car_count
           (observe_all s (take k ((t0, v) # map (\<lambda>t. (t, c)) ts))) = c"
proof (cases k)
  case 0
  with assms(2) show ?thesis by simp
next
  case (Suc j)
  have "set (take 9 (take j ts)) \<subseteq> set (take 9 ts)"
    by (simp add: min.commute set_take_subset_set_take)
  with assms(4) have "\<forall>t \<in> set (take 9 (take j ts)). t0 \<le> t \<and> t - t0 < 3 / 2"
    by blast
  from outlier_stream [OF assms(1-3) this, of v] show ?thesis
    by (simp add: Suc take_map)
qed

theorem single_outlier_debounced_witness:
  "length (detection_history (init_controller 0)) \<le> 10 \<and>
   confirmed_car_count (init_controller 0) = 0 \<and>
   pending_car_count (init_controller 0) = 0 \<and>
   list_all (\<lambda>t. 1 \<le> t \<and> t - 1 < 3 / 2) (take 9 fast_instants) \<and>
   confirmed_car_count
     (observe_all (init_controller 0)
        (take 12 ((1, 9) # map (\<lambda>t. (t, 0)) fast_instants))) = 0"
proof -
  have h: "length (detection_history (init_controller 0)) \<le> 10"
    "confirmed_car_count (init_controller 0) = 0"
    "pending_car_count (init_controller 0) = 0"
    by (simp_all add: init_controller_def)
  have w: "\<forall>t \<in> set (take 9 fast_instants). 1 \<le> t \<and> t - 1 < 3 / 2"
    by (simp add: fast_instants_def)
  from single_outlier_debounced [OF h w, of 12 9] h w show ?thesis
    by (simp add: list_all_iff)
qed

subsection \<open>Green to red without yellow\<close>

text \<open>
  C2. The claim holds of the transitions that start a yellow interval, but the exit
  from high-traffic mode at lines 375-378 sends A red, B green at once, whichever
  side has the green. In the run below high-traffic mode has given side A the green;
  when the confirmed count reaches 0, the recorded pair goes from (G, R) to (R, G)
  in one step, and the link receives \<open>AGBR\<close> and then \<open>ARBG\<close> with no yellow for
  side A in between.
\<close>

theorem high_traffic_exit_skips_yellow:
  "map_sum id lights (run 0 True (butlast exit_frames)) = Inr (''G'', ''R'') \<and>
   map_sum id lights (run 0 True exit_frames) = Inr (''R'', ''G'') \<and>
   map_sum id arduino_writes (run 0 True exit_frames) =
     Inr [''H'' @ [CHR 0x0A], ''ARBY'', ''AGBR'', ''ARBG'']"
  by (simp add: exit_frames_def eval_defs)

subsection \<open>Reset\<close>

text \<open>
  C5. The handler of key \<open>r\<close> sets the recorded lights to A red, B green before it
  calls \<open>send_commands\<close>, so the call finds nothing changed and writes nothing. In the
  run below side A has the green when the key is pressed: the record says (R, G)
  afterwards, the mode flags are cleared, and the link has received exactly what it
  receives without the key, the last command being \<open>AGBR\<close>.
\<close>

theorem reset_writes_nothing:
  "map_sum id lights (run 0 True no_reset_frames) = Inr (''G'', ''R'') \<and>
   map_sum id arduino_writes (run 0 True no_reset_frames) = Inr [''ARBY'', ''AGBR''] \<and>
   map_sum id lights (run 0 True reset_frames) = Inr (''R'', ''G'') \<and>
   map_sum id is_yellow_transition (run 0 True reset_frames) = Inr False \<and>
   map_sum id is_high_traffic_mode (run 0 True reset_frames) = Inr False \<and>
   map_sum id arduino_writes (run 0 True reset_frames) = Inr [''ARBY'', ''AGBR'']"
  by (simp add: reset_frames_def no_reset_frames_def eval_defs)

end
